theory Spec2Isabelle
  imports Main
begin

section \<open>The MCP interface of Crawl n Chat (src/api/mcp_app.py)\<close>

text \<open>
  The module holds one global, \<open>agent_router\<close>, a tool \<open>chat_with_content\<close> that
  forwards a query to it, and \<open>run_mcp_server\<close>, which fills the global and hands control
  to the stdio transport loop. The embedding threads the global, the console log level and
  a trace of the calls the module makes to its collaborators through every function;
  a raised exception is the left summand of the result.
\<close>

subsection \<open>Python values and exceptions\<close>

datatype py_value =
    PyNone
  | PyBool bool
  | PyInt int
  | PyStr string
  | PyList "py_value list"
  | PyDict "(string \<times> py_value) list"

text \<open>A \<open>Dict[str, Any]\<close>, in insertion order.\<close>

type_synonym py_dict = "(string \<times> py_value) list"

text \<open>
  The classes of the exceptions that occur. \<open>RuntimeError\<close> is the class the module
  declares itself (\<open>class RuntimeError(Exception)\<close>, lines 22-26). The last five stand for
  the classes that derive from \<open>BaseException\<close> without deriving from \<open>Exception\<close>;
  \<open>asyncio.CancelledError\<close> is one of them from Python 3.8 on.
\<close>

datatype exc_class =
    KeyError
  | RuntimeError
  | Exception_subclass string
  | KeyboardInterrupt
  | SystemExit
  | GeneratorExit
  | CancelledError
  | BaseException_subclass string

text \<open>An exception object: its class and the text \<open>str(e)\<close> gives.\<close>

datatype py_exc = PyExc (class_of: exc_class) (str_of: string)

text \<open>\<open>isinstance(e, Exception)\<close>: what a handler \<open>except Exception\<close> catches.\<close>

fun isinstance_Exception :: "py_exc \<Rightarrow> bool" where
  "isinstance_Exception (PyExc KeyboardInterrupt _) = False"
| "isinstance_Exception (PyExc SystemExit _) = False"
| "isinstance_Exception (PyExc GeneratorExit _) = False"
| "isinstance_Exception (PyExc CancelledError _) = False"
| "isinstance_Exception (PyExc (BaseException_subclass _) _) = False"
| "isinstance_Exception (PyExc _ _) = True"

text \<open>
  \<open>repr\<close> of a string that holds no quote, backslash or control character: the string
  between single quotes. \<open>str(KeyError(k))\<close> is \<open>repr(k)\<close>.
\<close>

definition py_repr :: "string \<Rightarrow> string" where
  "py_repr s = CHR 0x27 # s @ [CHR 0x27]"

text \<open>\<open>d[k]\<close> raises \<open>KeyError(k)\<close> on a missing key; \<open>d.get(k, default)\<close> does not.\<close>

definition py_getitem :: "py_dict \<Rightarrow> string \<Rightarrow> py_exc + py_value" where
  "py_getitem d k =
     (case map_of d k of
        None \<Rightarrow> Inl (PyExc KeyError (py_repr k))
      | Some v \<Rightarrow> Inr v)"

definition py_get :: "py_dict \<Rightarrow> string \<Rightarrow> py_value \<Rightarrow> py_value" where
  "py_get d k dflt = (case map_of d k of None \<Rightarrow> dflt | Some v \<Rightarrow> v)"

subsection \<open>The collaborator and the module's state\<close>

text \<open>
  The class \<open>AgentRouter\<close> comes from \<open>src.core.router\<close>, which is not part of the
  source at hand, so an instance is given by what the module uses of it: its identity, its
  truth value (\<open>if not agent_router\<close>, \<open>if init_agent_router\<close>) and the outcome of
  \<open>process_query(query=q)\<close>, which returns a dictionary or raises.
\<close>

record AgentRouter =
  router_id :: nat
  truthy :: bool
  process_query :: "string \<Rightarrow> py_exc + py_dict"

text \<open>A value of type \<open>Optional[AgentRouter]\<close>; \<open>None\<close> is Python's \<open>None\<close>.\<close>

type_synonym handle = "AgentRouter option"

text \<open>Python's \<open>not h\<close>: \<open>None\<close> is false, an object has the truth value of its class.\<close>

fun py_not :: "handle \<Rightarrow> bool" where
  "py_not None = True"
| "py_not (Some r) = (\<not> truthy r)"

text \<open>
  What the module does to the world outside it, in order: each call of the collaborator
  with its outcome, each construction of a collaborator, each call of
  \<open>configure_logging\<close> with its outcome (\<open>None\<close>: it returned), each call of
  \<open>mcp.run\<close>, which hands control to the transport loop, with its transport and the
  console level in force at that moment, and each record sent to \<open>logger.error\<close>.
\<close>

datatype event =
    Call_process_query nat string "py_exc + py_dict"
  | Call_AgentRouter string
  | Call_configure_logging string "py_exc option"
  | Call_mcp_run string string
  | Log_error string

record state =
  agent_router :: handle
  console_level :: string
  trace :: "event list"

definition emit :: "event \<Rightarrow> state \<Rightarrow> state" where
  "emit e st = st\<lparr>trace := trace st @ [e]\<rparr>"

subsection \<open>\<open>chat_with_content\<close> (lines 41-62)\<close>

text \<open>
  The body of the \<open>try\<close> after the collaborator has answered (line 59): the dictionary
  display evaluates \<open>result["response"]\<close> first and \<open>result.get("sources", [])\<close> after it.
\<close>

definition chat_result :: "py_exc + py_dict \<Rightarrow> py_exc + py_dict" where
  "chat_result outcome =
     (case outcome of
        Inl e \<Rightarrow> Inl e
      | Inr result \<Rightarrow>
          (case py_getitem result ''response'' of
             Inl e \<Rightarrow> Inl e
           | Inr response \<Rightarrow>
               Inr [(''response'', response),
                    (''sources'', py_get result ''sources'' (PyList []))]))"

definition chat_with_content :: "state \<Rightarrow> string \<Rightarrow> (py_exc + py_dict) \<times> state" where
  "chat_with_content st query =
     (if py_not (agent_router st) then
        (Inr [(''error'', PyStr ''Service not initialized'')], st)
      else
        (case agent_router st of
           None \<Rightarrow> (Inr [(''error'', PyStr ''Service not initialized'')], st)  \<comment> \<open>not reached\<close>
         | Some r \<Rightarrow>
             (let outcome = process_query r query;
                  st1 = emit (Call_process_query (router_id r) query outcome) st
              in case chat_result outcome of
                   Inr d \<Rightarrow> (Inr d, st1)
                 | Inl e \<Rightarrow>
                     if isinstance_Exception e then
                       (Inr [(''error'', PyStr (''Error processing query: '' @ str_of e))],
                        emit (Log_error (''Error in chat: '' @ str_of e)) st1)
                     else (Inl e, st1))))"

text \<open>Tool calls one after the other, each on the state the one before left.\<close>

fun dispatch_all :: "state \<Rightarrow> string list \<Rightarrow> (py_exc + py_dict) list \<times> state" where
  "dispatch_all st [] = ([], st)"
| "dispatch_all st (q # qs) =
     (case chat_with_content st q of
        (res, st1) \<Rightarrow> (case dispatch_all st1 qs of (ress, st2) \<Rightarrow> (res # ress, st2)))"

subsection \<open>\<open>run_mcp_server\<close> (lines 65-99)\<close>

text \<open>
  The names the module imports and the source at hand does not define, as parameters:
  the configured default model, the constructor \<open>AgentRouter(embedding_model=m)\<close>,
  \<open>configure_logging(level)\<close> and \<open>mcp.run(transport=t)\<close>. Each call returns or raises;
  \<open>mcp.run\<close> returns \<open>None\<close> when the transport loop has run and ended.
\<close>

record env =
  DEFAULT_EMBEDDING_MODEL :: string
  new_AgentRouter :: "string \<Rightarrow> py_exc + handle"
  configure_logging :: "string \<Rightarrow> py_exc option"
  mcp_run :: "string \<Rightarrow> py_exc option"

text \<open>
  Modelled from the spec: \<open>configure_logging\<close> of \<open>src.core.logger\<close> is not part of the
  source at hand. When it returns, the console verbosity is the level it was given (the
  spec's logging-suppression contract, and the comment at lines 89-90); when it raises,
  the level is the one before.
\<close>

definition do_configure_logging :: "env \<Rightarrow> string \<Rightarrow> state \<Rightarrow> py_exc option \<times> state" where
  "do_configure_logging ev level st =
     (case configure_logging ev level of
        Some e \<Rightarrow> (Some e, emit (Call_configure_logging level (Some e)) st)
      | None \<Rightarrow>
          (None, emit (Call_configure_logging level None) (st\<lparr>console_level := level\<rparr>)))"

text \<open>The handler of lines 97-99: log and raise again.\<close>

definition run_handler :: "py_exc \<Rightarrow> state \<Rightarrow> (py_exc + unit) \<times> state" where
  "run_handler e st =
     (if isinstance_Exception e then
        (Inl e, emit (Log_error (''MCP server failed to start or crashed: '' @ str_of e)) st)
      else (Inl e, st))"

text \<open>Lines 77-81: the conditional expression whose value is assigned to the global.\<close>

definition choose_router :: "env \<Rightarrow> handle \<Rightarrow> state \<Rightarrow> (py_exc + handle) \<times> state" where
  "choose_router ev init_agent_router st =
     (if \<not> py_not init_agent_router then (Inr init_agent_router, st)
      else (new_AgentRouter ev (DEFAULT_EMBEDDING_MODEL ev),
            emit (Call_AgentRouter (DEFAULT_EMBEDDING_MODEL ev)) st))"

text \<open>Lines 88-99: the \<open>try\<close> statement.\<close>

definition serve :: "env \<Rightarrow> state \<Rightarrow> (py_exc + unit) \<times> state" where
  "serve ev st =
     (case do_configure_logging ev ''CRITICAL'' st of
        (Some e, st1) \<Rightarrow> run_handler e st1
      | (None, st1) \<Rightarrow>
          (let st2 = emit (Call_mcp_run ''stdio'' (console_level st1)) st1
           in case mcp_run ev ''stdio'' of
                Some e \<Rightarrow> run_handler e st2
              | None \<Rightarrow> (Inr (), st2)))"

definition run_mcp_server :: "env \<Rightarrow> handle \<Rightarrow> state \<Rightarrow> (py_exc + unit) \<times> state" where
  "run_mcp_server ev init_agent_router st =
     (case choose_router ev init_agent_router st of
        (Inl e, st1) \<Rightarrow> (Inl e, st1)
      | (Inr h, st1) \<Rightarrow>
          (let st2 = st1\<lparr>agent_router := h\<rparr>
           in if py_not (agent_router st2) then
                (Inl (PyExc RuntimeError
                   ''Shared services must be initialized before starting the server''), st2)
              else serve ev st2))"

text \<open>The events a run adds to the trace it started from.\<close>

definition events_since :: "state \<Rightarrow> state \<Rightarrow> event list" where
  "events_since st st' = drop (length (trace st)) (trace st')"

text \<open>
  The models the constructor was called with, and the calls of \<open>mcp.run\<close> with the
  console level at each.
\<close>

fun constructions :: "event list \<Rightarrow> string list" where
  "constructions [] = []"
| "constructions (Call_AgentRouter m # es) = m # constructions es"
| "constructions (_ # es) = constructions es"

fun loop_entries :: "event list \<Rightarrow> (string \<times> string) list" where
  "loop_entries [] = []"
| "loop_entries (Call_mcp_run t lvl # es) = (t, lvl) # loop_entries es"
| "loop_entries (_ # es) = loop_entries es"

subsection \<open>The two shapes of a tool result\<close>

definition success_shape :: "py_dict \<Rightarrow> bool" where
  "success_shape d = (map fst d = [''response'', ''sources''])"

fun error_shape :: "py_dict \<Rightarrow> bool" where
  "error_shape [(k, PyStr msg)] = (k = ''error'')"
| "error_shape _ = False"

subsection \<open>Concrete collaborators, environments and states\<close>

definition st0 :: state where
  "st0 = \<lparr>agent_router = None, console_level = ''INFO'', trace = []\<rparr>"

text \<open>
  A collaborator that raises \<open>ValueError("boom")\<close> on the query \<open>bad\<close>, answers without a
  \<open>sources\<close> entry on \<open>plain\<close>, without a \<open>response\<close> entry on \<open>empty\<close>, and with both
  entries on every other query.
\<close>

definition stub :: AgentRouter where
  "stub = \<lparr>router_id = 1, truthy = True,
           process_query = (\<lambda>q.
             if q = ''bad'' then Inl (PyExc (Exception_subclass ''ValueError'') ''boom'')
             else if q = ''plain'' then Inr [(''response'', PyStr ''R'')]
             else if q = ''empty'' then Inr [(''sources'', PyList [])]
             else Inr [(''response'', PyStr ''R''), (''sources'', PyList [PyStr ''s1''])])\<rparr>"

text \<open>The same collaborator as an object that is false in a boolean context.\<close>

definition falsy_stub :: AgentRouter where
  "falsy_stub = stub\<lparr>router_id := 2, truthy := False\<rparr>"

text \<open>A collaborator whose call is cancelled: \<open>process_query\<close> raises \<open>CancelledError\<close>.\<close>

definition cancelled_stub :: AgentRouter where
  "cancelled_stub = \<lparr>router_id = 3, truthy = True,
                     process_query = (\<lambda>q. Inl (PyExc CancelledError []))\<rparr>"

text \<open>The instance the constructor of the example environments builds.\<close>

definition built :: AgentRouter where
  "built = stub\<lparr>router_id := 4\<rparr>"

definition env_ok :: env where
  "env_ok = \<lparr>DEFAULT_EMBEDDING_MODEL = ''m1'',
             new_AgentRouter = (\<lambda>m. Inr (Some built)),
             configure_logging = (\<lambda>l. None),
             mcp_run = (\<lambda>t. None)\<rparr>"

definition env_ctor_raises :: env where
  "env_ctor_raises =
     env_ok\<lparr>new_AgentRouter := (\<lambda>m. Inl (PyExc (Exception_subclass ''OSError'') ''no index''))\<rparr>"

definition env_ctor_invalid :: env where
  "env_ctor_invalid = env_ok\<lparr>new_AgentRouter := (\<lambda>m. Inr (Some falsy_stub))\<rparr>"

definition env_logging_raises :: env where
  "env_logging_raises =
     env_ok\<lparr>configure_logging :=
              (\<lambda>l. Some (PyExc (Exception_subclass ''OSError'') ''log file''))\<rparr>"

definition env_run_raises :: env where
  "env_run_raises =
     env_ok\<lparr>mcp_run := (\<lambda>t. Some (PyExc (Exception_subclass ''OSError'') ''stdin closed''))\<rparr>"

section \<open>Properties\<close>

subsection \<open>Auxiliary facts\<close>

lemmas run_defs = run_mcp_server_def choose_router_def serve_def do_configure_logging_def
  run_handler_def emit_def events_since_def Let_def

lemmas example_defs = st0_def stub_def falsy_stub_def cancelled_stub_def built_def env_ok_def
  env_ctor_raises_def env_ctor_invalid_def env_run_raises_def env_logging_raises_def

lemmas chat_defs = chat_with_content_def chat_result_def py_getitem_def py_get_def
  events_since_def emit_def Let_def

lemma events_since_self: "events_since st st = []"
  by (simp add: events_since_def)

lemma events_since_emit: "events_since st (emit e st) = [e]"
  by (simp add: events_since_def emit_def)

lemma events_since_emit2: "events_since st (emit e2 (emit e1 st)) = [e1, e2]"
  by (simp add: events_since_def emit_def)


lemma chat_falsy:
  "py_not (agent_router st) \<Longrightarrow>
   chat_with_content st q = (Inr [(''error'', PyStr ''Service not initialized'')], st)"
  by (simp add: chat_with_content_def)

lemma chat_truthy:
  "agent_router st = Some r \<Longrightarrow> truthy r \<Longrightarrow>
   chat_with_content st q =
     (case chat_result (process_query r q) of
        Inr d \<Rightarrow> (Inr d, emit (Call_process_query (router_id r) q (process_query r q)) st)
      | Inl e \<Rightarrow>
          if isinstance_Exception e then
            (Inr [(''error'', PyStr (''Error processing query: '' @ str_of e))],
             emit (Log_error (''Error in chat: '' @ str_of e))
               (emit (Call_process_query (router_id r) q (process_query r q)) st))
          else (Inl e, emit (Call_process_query (router_id r) q (process_query r q)) st))"
  by (simp add: chat_with_content_def Let_def)

lemma chat_events_truthy:
  "agent_router st = Some r \<Longrightarrow> truthy r \<Longrightarrow>
   \<exists>rest. events_since st (snd (chat_with_content st q)) =
     Call_process_query (router_id r) q (process_query r q) # rest
     \<and> (\<forall>x \<in> set rest. \<exists>m. x = Log_error m)"
  by (auto simp: chat_truthy events_since_emit events_since_emit2 split: sum.splits)


lemma chat_result_ok:
  "map_of result ''response'' = Some response \<Longrightarrow>
   chat_result (Inr result) =
     Inr [(''response'', response),
          (''sources'', case map_of result ''sources'' of Some s \<Rightarrow> s | None \<Rightarrow> PyList [])]"
  by (simp add: chat_result_def py_getitem_def py_get_def split: option.splits)



lemma chat_frame:
  "agent_router (snd (chat_with_content st q)) = agent_router st"
  by (simp add: chat_with_content_def emit_def Let_def split: option.splits sum.splits)

lemma dispatch_all_frame:
  "agent_router (snd (dispatch_all st qs)) = agent_router st"
proof (induction qs arbitrary: st)
  case Nil
  show ?case by simp
next
  case (Cons q qs)
  obtain res st1 where c: "chat_with_content st q = (res, st1)"
    by (cases "chat_with_content st q")
  then have "agent_router st1 = agent_router st"
    using chat_frame [of st q] by simp
  with Cons.IH [of st1] c show ?case
    by (auto split: prod.splits)
qed

lemma loop_entries_Nil: "loop_entries es = [] \<Longrightarrow> Call_mcp_run t lvl \<notin> set es"
  by (induction es rule: loop_entries.induct) auto

lemma serve_events:
  "\<exists>post. loop_entries post = []
     \<and> (trace (snd (serve ev st)) =
            trace st @ [Call_configure_logging ''CRITICAL'' None,
                        Call_mcp_run ''stdio'' ''CRITICAL''] @ post
          \<or> (\<exists>e. trace (snd (serve ev st)) =
                    trace st @ Call_configure_logging ''CRITICAL'' (Some e) # post))"
proof (cases "configure_logging ev ''CRITICAL''")
  case (Some e)
  show ?thesis
  proof (cases "isinstance_Exception e")
    case True
    with Some have "trace (snd (serve ev st)) =
        trace st @ Call_configure_logging ''CRITICAL'' (Some e) #
          [Log_error (''MCP server failed to start or crashed: '' @ str_of e)]"
      by (simp add: serve_def do_configure_logging_def run_handler_def emit_def)
    moreover have "loop_entries
          [Log_error (''MCP server failed to start or crashed: '' @ str_of e)] = []"
      by simp
    ultimately show ?thesis by blast
  next
    case False
    with Some have "trace (snd (serve ev st)) =
        trace st @ Call_configure_logging ''CRITICAL'' (Some e) # []"
      by (simp add: serve_def do_configure_logging_def run_handler_def emit_def)
    moreover have "loop_entries [] = []" by simp
    ultimately show ?thesis by blast
  qed
next
  case None
  show ?thesis
  proof (cases "mcp_run ev ''stdio''")
    case n: None
    with None have "trace (snd (serve ev st)) =
        trace st @ [Call_configure_logging ''CRITICAL'' None,
                    Call_mcp_run ''stdio'' ''CRITICAL''] @ []"
      by (simp add: serve_def do_configure_logging_def emit_def Let_def)
    moreover have "loop_entries [] = []" by simp
    ultimately show ?thesis by blast
  next
    case (Some e)
    show ?thesis
    proof (cases "isinstance_Exception e")
      case True
      with None Some have "trace (snd (serve ev st)) =
          trace st @ [Call_configure_logging ''CRITICAL'' None,
                      Call_mcp_run ''stdio'' ''CRITICAL''] @
            [Log_error (''MCP server failed to start or crashed: '' @ str_of e)]"
        by (simp add: serve_def do_configure_logging_def run_handler_def emit_def Let_def)
      moreover have "loop_entries
            [Log_error (''MCP server failed to start or crashed: '' @ str_of e)] = []"
        by simp
      ultimately show ?thesis by blast
    next
      case False
      with None Some have "trace (snd (serve ev st)) =
          trace st @ [Call_configure_logging ''CRITICAL'' None,
                      Call_mcp_run ''stdio'' ''CRITICAL''] @ []"
        by (simp add: serve_def do_configure_logging_def run_handler_def emit_def Let_def)
      moreover have "loop_entries [] = []" by simp
      ultimately show ?thesis by blast
    qed
  qed
qed

lemma run_events:
  "\<exists>pre. loop_entries pre = []
     \<and> (events_since st (snd (run_mcp_server ev init st)) = pre
          \<or> (\<exists>st1. trace st1 = trace st @ pre
                 \<and> snd (run_mcp_server ev init st) = snd (serve ev st1)))"
proof (cases "py_not init")
  case False
  then have "snd (run_mcp_server ev init st) = snd (serve ev (st\<lparr>agent_router := init\<rparr>))"
    by (simp add: run_mcp_server_def choose_router_def)
  moreover have "trace (st\<lparr>agent_router := init\<rparr>) = trace st @ []" by simp
  moreover have "loop_entries [] = []" by simp
  ultimately show ?thesis by blast
next
  case True
  let ?c = "Call_AgentRouter (DEFAULT_EMBEDDING_MODEL ev)"
  have l: "loop_entries [?c] = []" by simp
  show ?thesis
  proof (cases "new_AgentRouter ev (DEFAULT_EMBEDDING_MODEL ev)")
    case (Inl e)
    with True have "events_since st (snd (run_mcp_server ev init st)) = [?c]"
      by (simp add: run_defs)
    with l show ?thesis by blast
  next
    case (Inr h)
    show ?thesis
    proof (cases "py_not h")
      case t: True
      with True Inr have "events_since st (snd (run_mcp_server ev init st)) = [?c]"
        by (simp add: run_defs)
      with l show ?thesis by blast
    next
      case False
      with True Inr have "snd (run_mcp_server ev init st) =
          snd (serve ev (emit ?c st\<lparr>agent_router := h\<rparr>))"
        by (simp add: run_mcp_server_def choose_router_def)
      moreover have "trace (emit ?c st\<lparr>agent_router := h\<rparr>) = trace st @ [?c]"
        by (simp add: emit_def)
      ultimately show ?thesis using l by blast
    qed
  qed
qed

lemma run_adopts:
  assumes "init = Some p" and "truthy p"
  shows "constructions (events_since st (snd (run_mcp_server ev init st))) = []"
    and "agent_router (snd (run_mcp_server ev init st)) = Some p"
  using assms by (auto simp: run_defs split: sum.splits option.splits)

lemma run_constructs:
  assumes "py_not init"
  shows "constructions (events_since st (snd (run_mcp_server ev init st))) =
           [DEFAULT_EMBEDDING_MODEL ev]"
    and "new_AgentRouter ev (DEFAULT_EMBEDDING_MODEL ev) = Inr h \<Longrightarrow>
         agent_router (snd (run_mcp_server ev init st)) = h"
  using assms by (auto simp: run_defs split: sum.splits option.splits)

lemma mcp_run_after_configure_logging:
  assumes "Call_mcp_run t lvl \<in> set (events_since st (snd (run_mcp_server ev init st)))"
  shows "t = ''stdio'' \<and> lvl = ''CRITICAL''
         \<and> (\<exists>pre post.
               events_since st (snd (run_mcp_server ev init st)) =
                 pre @ [Call_configure_logging ''CRITICAL'' None,
                        Call_mcp_run ''stdio'' ''CRITICAL''] @ post
               \<and> loop_entries pre = [] \<and> loop_entries post = [])"
proof -
  let ?evs = "events_since st (snd (run_mcp_server ev init st))"
  from run_events [where ev = ev and init = init and st = st] obtain pre where
    pre: "loop_entries pre = []" and
    alt: "?evs = pre \<or> (\<exists>st1. trace st1 = trace st @ pre
             \<and> snd (run_mcp_server ev init st) = snd (serve ev st1))"
    by blast
  from pre have no_run: "Call_mcp_run t lvl \<notin> set pre"
    by (rule loop_entries_Nil)
  from alt assms no_run obtain st1 where
    st1: "trace st1 = trace st @ pre" and
    run: "snd (run_mcp_server ev init st) = snd (serve ev st1)"
    by auto
  from serve_events [where ev = ev and st = st1] obtain post where
    post: "loop_entries post = []" and
    alt2: "trace (snd (serve ev st1)) =
             trace st1 @ [Call_configure_logging ''CRITICAL'' None,
                          Call_mcp_run ''stdio'' ''CRITICAL''] @ post
           \<or> (\<exists>e. trace (snd (serve ev st1)) =
                     trace st1 @ Call_configure_logging ''CRITICAL'' (Some e) # post)"
    by blast
  from post have no_run2: "Call_mcp_run t lvl \<notin> set post"
    by (rule loop_entries_Nil)
  have evs: "?evs = drop (length (trace st)) (trace (snd (serve ev st1)))"
    by (simp add: events_since_def run)
  from alt2 show ?thesis
  proof
    assume a: "trace (snd (serve ev st1)) =
             trace st1 @ [Call_configure_logging ''CRITICAL'' None,
                          Call_mcp_run ''stdio'' ''CRITICAL''] @ post"
    then have e: "?evs = pre @ [Call_configure_logging ''CRITICAL'' None,
                          Call_mcp_run ''stdio'' ''CRITICAL''] @ post"
      by (simp add: evs st1)
    with assms no_run no_run2 have "t = ''stdio'' \<and> lvl = ''CRITICAL''" by auto
    with e pre post show ?thesis by blast
  next
    assume "\<exists>e. trace (snd (serve ev st1)) =
                     trace st1 @ Call_configure_logging ''CRITICAL'' (Some e) # post"
    then obtain e where "?evs = pre @ Call_configure_logging ''CRITICAL'' (Some e) # post"
      by (auto simp: evs st1)
    with assms no_run no_run2 show ?thesis by auto
  qed
qed

subsection \<open>The tool before the service is ready\<close>

text \<open>
  C1. Whatever the query, when the global \<open>agent_router\<close> is \<open>None\<close> the tool returns
  exactly the dictionary with the one entry \<open>error: "Service not initialized"\<close>, and the
  state is the one the call started from: the call has added no event, so
  \<open>process_query\<close> has not been invoked.
\<close>

theorem chat_with_content_not_initialized:
  assumes "agent_router st = None"
  shows "chat_with_content st q =
           (Inr [(''error'', PyStr ''Service not initialized'')], st)
         \<and> events_since st (snd (chat_with_content st q)) = []"
  using assms by (simp add: chat_falsy events_since_self)

theorem chat_with_content_not_initialized_witness:
  "agent_router st0 = None
   \<and> chat_with_content st0 ''hello'' =
       (Inr [(''error'', PyStr ''Service not initialized'')], st0)
   \<and> events_since st0 (snd (chat_with_content st0 ''hello'')) = []"
proof -
  have h: "agent_router st0 = None" by (simp add: st0_def)
  from chat_with_content_not_initialized [OF h, of "''hello''"] h show ?thesis by blast
qed

text \<open>
  C9. The guard is \<open>if not agent_router\<close>, so it fires on every value that is false in
  a boolean context: \<open>None\<close>, and also an object whose truth value is false. On each of
  them the tool returns \<open>error: "Service not initialized"\<close> and does not invoke the
  collaborator.
\<close>

theorem chat_with_content_falsy_handle:
  assumes "py_not (agent_router st)"
  shows "chat_with_content st q =
           (Inr [(''error'', PyStr ''Service not initialized'')], st)
         \<and> events_since st (snd (chat_with_content st q)) = []"
  using assms by (simp add: chat_falsy events_since_self)

theorem chat_with_content_falsy_handle_witness:
  "py_not (agent_router (st0\<lparr>agent_router := Some falsy_stub\<rparr>))
   \<and> chat_with_content (st0\<lparr>agent_router := Some falsy_stub\<rparr>) ''hello'' =
       (Inr [(''error'', PyStr ''Service not initialized'')],
        st0\<lparr>agent_router := Some falsy_stub\<rparr>)
   \<and> events_since (st0\<lparr>agent_router := Some falsy_stub\<rparr>)
        (snd (chat_with_content (st0\<lparr>agent_router := Some falsy_stub\<rparr>) ''hello'')) = []"
proof -
  have h: "py_not (agent_router (st0\<lparr>agent_router := Some falsy_stub\<rparr>))"
    by (simp add: falsy_stub_def)
  from chat_with_content_falsy_handle [OF h, of "''hello''"] h show ?thesis by blast
qed

subsection \<open>The tool on a collaborator that answers\<close>

text \<open>
  C2 says that a set handle and an answering \<open>process_query\<close> give the success
  dictionary. The guard at line 54 tests the truth value of the global: a handle that is
  set to an object that is false in a boolean context is not queried, and the tool returns
  the error of the service that is not initialized, although \<open>process_query\<close> of that
  object would have answered.
\<close>

theorem set_but_falsy_handle_is_not_queried:
  "agent_router (st0\<lparr>agent_router := Some falsy_stub\<rparr>) = Some falsy_stub
   \<and> process_query falsy_stub ''plain'' = Inr [(''response'', PyStr ''R'')]
   \<and> fst (chat_with_content (st0\<lparr>agent_router := Some falsy_stub\<rparr>) ''plain'') =
       Inr [(''error'', PyStr ''Service not initialized'')]
   \<and> events_since (st0\<lparr>agent_router := Some falsy_stub\<rparr>)
        (snd (chat_with_content (st0\<lparr>agent_router := Some falsy_stub\<rparr>) ''plain'')) = []"
  by (simp add: example_defs chat_defs)

text \<open>
  C2, amended. When the global holds a collaborator that is true in a boolean context
  and its \<open>process_query\<close> returns for the query a dictionary \<open>result\<close> that has the
  \<open>response\<close> entry, the tool invokes \<open>process_query\<close> once, with that query, and returns
  \<open>response: result["response"]\<close> together with \<open>sources\<close>: the \<open>sources\<close> entry of
  \<open>result\<close> when there is one, the empty list otherwise; in particular the empty list when
  \<open>result\<close> has no \<open>sources\<close> entry.
\<close>

theorem chat_with_content_success:
  assumes "agent_router st = Some r"
      and "truthy r"
      and "process_query r q = Inr result"
      and "map_of result ''response'' = Some response"
  shows "fst (chat_with_content st q) =
           Inr [(''response'', response),
                (''sources'', case map_of result ''sources'' of
                                Some s \<Rightarrow> s | None \<Rightarrow> PyList [])]
         \<and> (map_of result ''sources'' = None \<longrightarrow>
              fst (chat_with_content st q) =
                Inr [(''response'', response), (''sources'', PyList [])])
         \<and> events_since st (snd (chat_with_content st q)) =
             [Call_process_query (router_id r) q (Inr result)]"
  by (simp add: chat_truthy [OF assms(1,2)] assms(3) chat_result_ok [OF assms(4)]
        events_since_emit)

theorem chat_with_content_success_witness:
  "agent_router (st0\<lparr>agent_router := Some stub\<rparr>) = Some stub
   \<and> truthy stub
   \<and> process_query stub ''plain'' = Inr [(''response'', PyStr ''R'')]
   \<and> map_of [(''response'', PyStr ''R'')] ''response'' = Some (PyStr ''R'')
   \<and> map_of [(''response'', PyStr ''R'')] ''sources'' = None
   \<and> fst (chat_with_content (st0\<lparr>agent_router := Some stub\<rparr>) ''plain'') =
       Inr [(''response'', PyStr ''R''), (''sources'', PyList [])]
   \<and> events_since (st0\<lparr>agent_router := Some stub\<rparr>)
        (snd (chat_with_content (st0\<lparr>agent_router := Some stub\<rparr>) ''plain'')) =
       [Call_process_query 1 ''plain'' (Inr [(''response'', PyStr ''R'')])]"
proof -
  let ?st = "st0\<lparr>agent_router := Some stub\<rparr>"
  have h1: "agent_router ?st = Some stub" by simp
  have h2: "truthy stub" by (simp add: stub_def)
  have h3: "process_query stub ''plain'' = Inr [(''response'', PyStr ''R'')]"
    by (simp add: stub_def)
  have h4: "map_of [(''response'', PyStr ''R'')] ''response'' = Some (PyStr ''R'')" by simp
  have h5: "map_of [(''response'', PyStr ''R'')] ''sources'' = None" by simp
  have h6: "router_id stub = 1" by (simp add: stub_def)
  from chat_with_content_success [OF h1 h2 h3 h4] h1 h2 h3 h4 h5 h6 show ?thesis by simp
qed



subsection \<open>The tool on a collaborator that raises\<close>




subsection \<open>Shape of the result and frame of the call\<close>

text \<open>
  C5. Every dictionary the tool returns has exactly one of the two shapes: the keys
  \<open>response\<close> and \<open>sources\<close>, or the single key \<open>error\<close> with a string; never both and
  never neither.
\<close>

theorem chat_with_content_one_shape:
  assumes "fst (chat_with_content st q) = Inr d"
  shows "(success_shape d \<and> \<not> error_shape d) \<or> (error_shape d \<and> \<not> success_shape d)"
proof (cases "py_not (agent_router st)")
  case True
  with assms have "d = [(''error'', PyStr ''Service not initialized'')]"
    by (simp add: chat_falsy)
  then show ?thesis by (simp add: success_shape_def)
next
  case False
  then obtain r where r: "agent_router st = Some r" and t: "truthy r"
    by (cases "agent_router st") auto
  show ?thesis
  proof (cases "chat_result (process_query r q)")
    case (Inl e)
    with assms have "d = [(''error'', PyStr (''Error processing query: '' @ str_of e))]"
      by (simp add: chat_truthy[OF r t] split: if_splits)
    then show ?thesis by (simp add: success_shape_def)
  next
    case (Inr d')
    with assms have d: "d = d'" by (simp add: chat_truthy[OF r t])
    from Inr have "map fst d' = [''response'', ''sources'']"
      by (auto simp: chat_result_def split: sum.splits)
    with d have "success_shape d" by (simp add: success_shape_def)
    moreover from \<open>map fst d' = [''response'', ''sources'']\<close> d have "\<not> error_shape d"
      by (cases d rule: error_shape.cases) auto
    ultimately show ?thesis by simp
  qed
qed

theorem chat_with_content_one_shape_witness:
  "fst (chat_with_content (st0\<lparr>agent_router := Some stub\<rparr>) ''hello'') =
     Inr [(''response'', PyStr ''R''), (''sources'', PyList [PyStr ''s1''])]
   \<and> success_shape [(''response'', PyStr ''R''), (''sources'', PyList [PyStr ''s1''])]
   \<and> \<not> error_shape [(''response'', PyStr ''R''), (''sources'', PyList [PyStr ''s1''])]"
proof -
  have h: "fst (chat_with_content (st0\<lparr>agent_router := Some stub\<rparr>) ''hello'') =
             Inr [(''response'', PyStr ''R''), (''sources'', PyList [PyStr ''s1''])]"
    by (simp add: st0_def stub_def chat_with_content_def chat_result_def py_getitem_def
          py_get_def Let_def)
  from chat_with_content_one_shape [OF h] h show ?thesis
    by (simp add: success_shape_def)
qed

text \<open>
  C8. No call of the tool changes the global \<open>agent_router\<close>, whatever it returns or
  raises, and neither does any sequence of calls. The one write is the assignment in
  \<open>run_mcp_server\<close>: after a run the global holds the value chosen at lines 77-81, or the
  value it had before when the constructor raised.
\<close>

theorem agent_router_written_once:
  "agent_router (snd (chat_with_content st q)) = agent_router st
   \<and> agent_router (snd (dispatch_all st qs)) = agent_router st
   \<and> agent_router (snd (run_mcp_server ev init st)) =
       (case fst (choose_router ev init st) of
          Inl e \<Rightarrow> agent_router st
        | Inr h \<Rightarrow> h)"
proof (intro conjI)
  show "agent_router (snd (chat_with_content st q)) = agent_router st"
    by (rule chat_frame)
  show "agent_router (snd (dispatch_all st qs)) = agent_router st"
    by (rule dispatch_all_frame)
  show "agent_router (snd (run_mcp_server ev init st)) =
          (case fst (choose_router ev init st) of
             Inl e \<Rightarrow> agent_router st
           | Inr h \<Rightarrow> h)"
    by (auto simp: run_defs split: sum.splits option.splits)
qed

theorem agent_router_written_once_witness:
  "agent_router (snd (chat_with_content (st0\<lparr>agent_router := Some stub\<rparr>) ''bad'')) =
     Some stub
   \<and> agent_router (snd (dispatch_all (st0\<lparr>agent_router := Some stub\<rparr>)
                          [''bad'', ''good'', ''empty''])) = Some stub"
  using agent_router_written_once
          [of "st0\<lparr>agent_router := Some stub\<rparr>" "''bad''" "[''bad'', ''good'', ''empty'']"]
  by simp

subsection \<open>Startup\<close>

text \<open>
  C4 says that a provided instance is adopted without a construction. The choice at lines
  77-81 tests the truth value of \<open>init_agent_router\<close>: a provided instance that is false
  in a boolean context is set aside and a new collaborator is constructed in its place.
\<close>

theorem falsy_provided_instance_is_replaced:
  "router_id falsy_stub = 2
   \<and> constructions (events_since st0 (snd (run_mcp_server env_ok (Some falsy_stub) st0))) =
       [''m1'']
   \<and> map_option router_id (agent_router (snd (run_mcp_server env_ok (Some falsy_stub) st0))) =
       Some 4"
  by (simp add: run_defs st0_def env_ok_def falsy_stub_def stub_def built_def)

text \<open>
  C4, amended. When the provided instance is true in a boolean context, the run
  constructs nothing, the global holds that instance, a following tool call invokes the
  \<open>process_query\<close> of that instance, and the global holds it after any sequence of tool
  calls. When no instance is provided (or the provided one is false in a boolean context),
  the constructor is called exactly once, with the configured default embedding model, and
  when it returns a value the global holds that value, after any sequence of tool calls too.
\<close>

theorem run_mcp_server_single_instance:
  "(init = Some p \<and> truthy p \<longrightarrow>
      constructions (events_since st (snd (run_mcp_server ev init st))) = []
      \<and> agent_router (snd (run_mcp_server ev init st)) = Some p
      \<and> Call_process_query (router_id p) q (process_query p q)
          \<in> set (events_since (snd (run_mcp_server ev init st))
                   (snd (chat_with_content (snd (run_mcp_server ev init st)) q)))
      \<and> agent_router (snd (dispatch_all (snd (run_mcp_server ev init st)) qs)) = Some p)
   \<and> (py_not init \<longrightarrow>
      constructions (events_since st (snd (run_mcp_server ev init st))) =
        [DEFAULT_EMBEDDING_MODEL ev]
      \<and> (new_AgentRouter ev (DEFAULT_EMBEDDING_MODEL ev) = Inr h \<longrightarrow>
           agent_router (snd (run_mcp_server ev init st)) = h
           \<and> agent_router (snd (dispatch_all (snd (run_mcp_server ev init st)) qs)) = h))"
proof (intro conjI impI)
  assume a: "init = Some p \<and> truthy p"
  then have i: "init = Some p" and t: "truthy p" by simp_all
  let ?st' = "snd (run_mcp_server ev init st)"
  show "constructions (events_since st ?st') = []"
    by (rule run_adopts(1) [OF i t])
  show h: "agent_router ?st' = Some p"
    by (rule run_adopts(2) [OF i t])
  from chat_events_truthy [OF h t, of q]
  show "Call_process_query (router_id p) q (process_query p q)
          \<in> set (events_since ?st' (snd (chat_with_content ?st' q)))"
    by auto
  show "agent_router (snd (dispatch_all ?st' qs)) = Some p"
    by (simp add: dispatch_all_frame h)
next
  assume a: "py_not init"
  show "constructions (events_since st (snd (run_mcp_server ev init st))) =
          [DEFAULT_EMBEDDING_MODEL ev]"
    by (rule run_constructs(1) [OF a])
next
  assume a: "py_not init" and n: "new_AgentRouter ev (DEFAULT_EMBEDDING_MODEL ev) = Inr h"
  show "agent_router (snd (run_mcp_server ev init st)) = h"
    by (rule run_constructs(2) [OF a n])
  then show "agent_router (snd (dispatch_all (snd (run_mcp_server ev init st)) qs)) = h"
    by (simp add: dispatch_all_frame)
qed

theorem run_mcp_server_single_instance_witness:
  "truthy stub
   \<and> constructions (events_since st0 (snd (run_mcp_server env_ok (Some stub) st0))) = []
   \<and> agent_router (snd (run_mcp_server env_ok (Some stub) st0)) = Some stub
   \<and> py_not None
   \<and> new_AgentRouter env_ok (DEFAULT_EMBEDDING_MODEL env_ok) = Inr (Some built)
   \<and> constructions (events_since st0 (snd (run_mcp_server env_ok None st0))) = [''m1'']
   \<and> agent_router (snd (run_mcp_server env_ok None st0)) = Some built"
proof -
  have t: "truthy stub" by (simp add: stub_def)
  have n: "py_not None" by simp
  have c: "new_AgentRouter env_ok (DEFAULT_EMBEDDING_MODEL env_ok) = Inr (Some built)"
    by (simp add: env_ok_def)
  have d: "DEFAULT_EMBEDDING_MODEL env_ok = ''m1''" by (simp add: env_ok_def)
  from run_mcp_server_single_instance [of "Some stub" stub st0 env_ok] t
  have A: "constructions (events_since st0 (snd (run_mcp_server env_ok (Some stub) st0))) = []
           \<and> agent_router (snd (run_mcp_server env_ok (Some stub) st0)) = Some stub"
    by blast
  from run_mcp_server_single_instance [of None _ st0 env_ok _ _ "Some built"] n c d
  have B: "constructions (events_since st0 (snd (run_mcp_server env_ok None st0))) = [''m1'']
           \<and> agent_router (snd (run_mcp_server env_ok None st0)) = Some built"
    by simp
  from A B t n c show ?thesis by blast
qed

text \<open>
  C6. A run of \<open>run_mcp_server\<close> whose startup succeeds and whose call
  \<open>configure_logging("CRITICAL")\<close> returns hands control to the transport loop with the
  console level \<open>CRITICAL\<close> (the highest of the standard levels of Python's logging) in
  force, and the level is still \<open>CRITICAL\<close> when the run ends. When
  \<open>configure_logging("CRITICAL")\<close> raises, \<open>mcp.run\<close> is not called. In every run, each
  call of \<open>mcp.run\<close> has the transport \<open>stdio\<close>, meets the console level \<open>CRITICAL\<close>,
  and comes immediately after a call \<open>configure_logging("CRITICAL")\<close> that returned;
  the run calls \<open>mcp.run\<close> nowhere else.
\<close>

theorem logging_suppressed_before_transport_loop:
  "((\<not> py_not init
      \<or> (new_AgentRouter ev (DEFAULT_EMBEDDING_MODEL ev) = Inr h \<and> \<not> py_not h))
     \<and> configure_logging ev ''CRITICAL'' = None \<longrightarrow>
       loop_entries (events_since st (snd (run_mcp_server ev init st))) =
         [(''stdio'', ''CRITICAL'')]
       \<and> console_level (snd (run_mcp_server ev init st)) = ''CRITICAL'')
   \<and> (configure_logging ev ''CRITICAL'' = Some e \<longrightarrow>
       loop_entries (events_since st (snd (run_mcp_server ev init st))) = [])
   \<and> (Call_mcp_run t lvl \<in> set (events_since st (snd (run_mcp_server ev init st))) \<longrightarrow>
       t = ''stdio'' \<and> lvl = ''CRITICAL''
       \<and> console_level (snd (run_mcp_server ev init st)) = ''CRITICAL''
       \<and> (\<exists>pre post.
             events_since st (snd (run_mcp_server ev init st)) =
               pre @ [Call_configure_logging ''CRITICAL'' None,
                      Call_mcp_run ''stdio'' ''CRITICAL''] @ post
             \<and> loop_entries pre = [] \<and> loop_entries post = []))"
proof (intro conjI impI)
  assume "(\<not> py_not init
             \<or> (new_AgentRouter ev (DEFAULT_EMBEDDING_MODEL ev) = Inr h \<and> \<not> py_not h))
          \<and> configure_logging ev ''CRITICAL'' = None"
  then show "loop_entries (events_since st (snd (run_mcp_server ev init st))) =
               [(''stdio'', ''CRITICAL'')]"
    and "console_level (snd (run_mcp_server ev init st)) = ''CRITICAL''"
    by (auto simp: run_defs split: sum.splits option.splits)
next
  assume "configure_logging ev ''CRITICAL'' = Some e"
  then show "loop_entries (events_since st (snd (run_mcp_server ev init st))) = []"
    by (auto simp: run_defs split: sum.splits option.splits)
next
  assume a: "Call_mcp_run t lvl \<in> set (events_since st (snd (run_mcp_server ev init st)))"
  from mcp_run_after_configure_logging [OF a]
  show "t = ''stdio''" and "lvl = ''CRITICAL''"
    and "\<exists>pre post.
           events_since st (snd (run_mcp_server ev init st)) =
             pre @ [Call_configure_logging ''CRITICAL'' None,
                    Call_mcp_run ''stdio'' ''CRITICAL''] @ post
           \<and> loop_entries pre = [] \<and> loop_entries post = []"
    by blast+
  from a show "console_level (snd (run_mcp_server ev init st)) = ''CRITICAL''"
    by (auto simp: run_defs split: sum.splits option.splits if_splits)
qed

theorem logging_suppressed_before_transport_loop_witness:
  "py_not None
   \<and> new_AgentRouter env_ok (DEFAULT_EMBEDDING_MODEL env_ok) = Inr (Some built)
   \<and> \<not> py_not (Some built)
   \<and> configure_logging env_ok ''CRITICAL'' = None
   \<and> console_level st0 = ''INFO''
   \<and> loop_entries (events_since st0 (snd (run_mcp_server env_ok None st0))) =
       [(''stdio'', ''CRITICAL'')]
   \<and> console_level (snd (run_mcp_server env_ok None st0)) = ''CRITICAL''
   \<and> configure_logging env_logging_raises ''CRITICAL'' =
       Some (PyExc (Exception_subclass ''OSError'') ''log file'')
   \<and> loop_entries (events_since st0 (snd (run_mcp_server env_logging_raises None st0))) = []
   \<and> Call_mcp_run ''stdio'' ''CRITICAL''
       \<in> set (events_since st0 (snd (run_mcp_server env_run_raises None st0)))
   \<and> console_level (snd (run_mcp_server env_run_raises None st0)) = ''CRITICAL''"
proof -
  have a1: "py_not None" by simp
  have a2: "new_AgentRouter env_ok (DEFAULT_EMBEDDING_MODEL env_ok) = Inr (Some built)"
    by (simp add: example_defs)
  have a3: "\<not> py_not (Some built)" by (simp add: example_defs)
  have a4: "configure_logging env_ok ''CRITICAL'' = None" by (simp add: example_defs)
  have a5: "console_level st0 = ''INFO''" by (simp add: st0_def)
  have b1: "configure_logging env_logging_raises ''CRITICAL'' =
              Some (PyExc (Exception_subclass ''OSError'') ''log file'')"
    by (simp add: example_defs)
  have c1: "Call_mcp_run ''stdio'' ''CRITICAL''
              \<in> set (events_since st0 (snd (run_mcp_server env_run_raises None st0)))"
    by (simp add: example_defs run_defs)
  from logging_suppressed_before_transport_loop
         [where init = None and ev = env_ok and h = "Some built" and st = st0] a2 a3 a4
  have A: "loop_entries (events_since st0 (snd (run_mcp_server env_ok None st0))) =
             [(''stdio'', ''CRITICAL'')]
           \<and> console_level (snd (run_mcp_server env_ok None st0)) = ''CRITICAL''"
    by blast
  from logging_suppressed_before_transport_loop
         [where init = None and ev = env_logging_raises and st = st0
            and e = "PyExc (Exception_subclass ''OSError'') ''log file''"] b1
  have B: "loop_entries (events_since st0 (snd (run_mcp_server env_logging_raises None st0))) = []"
    by blast
  from logging_suppressed_before_transport_loop
         [where init = None and ev = env_run_raises and st = st0
            and t = "''stdio''" and lvl = "''CRITICAL''"] c1
  have C: "console_level (snd (run_mcp_server env_run_raises None st0)) = ''CRITICAL''"
    by blast
  from A B C a1 a2 a3 a4 a5 b1 c1 show ?thesis by blast
qed

text \<open>
  C7. A failed startup is raised to the caller and is not retried. When the constructor
  raises, the run raises that exception; when the constructor yields \<open>None\<close> or an object
  that is false in a boolean context, the run raises the module's \<open>RuntimeError\<close>; in both
  cases the constructor has been called once and \<open>mcp.run\<close> has not been called.
  When \<open>mcp.run\<close> raises, the run raises that exception and has called \<open>mcp.run\<close>
  that one time only: control is not handed to the transport loop again.
\<close>

theorem startup_failure_propagates:
  "(py_not init \<and> new_AgentRouter ev (DEFAULT_EMBEDDING_MODEL ev) = Inl e1 \<longrightarrow>
      fst (run_mcp_server ev init st) = Inl e1
      \<and> loop_entries (events_since st (snd (run_mcp_server ev init st))) = []
      \<and> constructions (events_since st (snd (run_mcp_server ev init st))) =
          [DEFAULT_EMBEDDING_MODEL ev])
   \<and> (py_not init \<and> new_AgentRouter ev (DEFAULT_EMBEDDING_MODEL ev) = Inr h \<and> py_not h \<longrightarrow>
      fst (run_mcp_server ev init st) =
        Inl (PyExc RuntimeError
               ''Shared services must be initialized before starting the server'')
      \<and> loop_entries (events_since st (snd (run_mcp_server ev init st))) = []
      \<and> constructions (events_since st (snd (run_mcp_server ev init st))) =
          [DEFAULT_EMBEDDING_MODEL ev])
   \<and> (Call_mcp_run ''stdio'' lvl \<in> set (events_since st (snd (run_mcp_server ev init st)))
       \<and> mcp_run ev ''stdio'' = Some e2 \<longrightarrow>
      fst (run_mcp_server ev init st) = Inl e2
      \<and> loop_entries (events_since st (snd (run_mcp_server ev init st))) = [(''stdio'', lvl)])"
  by (auto simp: run_defs split: sum.splits option.splits if_splits)

theorem startup_failure_propagates_witness:
  "py_not None
   \<and> new_AgentRouter env_ctor_raises (DEFAULT_EMBEDDING_MODEL env_ctor_raises) =
       Inl (PyExc (Exception_subclass ''OSError'') ''no index'')
   \<and> fst (run_mcp_server env_ctor_raises None st0) =
       Inl (PyExc (Exception_subclass ''OSError'') ''no index'')
   \<and> loop_entries (events_since st0 (snd (run_mcp_server env_ctor_raises None st0))) = []
   \<and> new_AgentRouter env_ctor_invalid (DEFAULT_EMBEDDING_MODEL env_ctor_invalid) =
       Inr (Some falsy_stub)
   \<and> py_not (Some falsy_stub)
   \<and> fst (run_mcp_server env_ctor_invalid None st0) =
       Inl (PyExc RuntimeError
              ''Shared services must be initialized before starting the server'')
   \<and> loop_entries (events_since st0 (snd (run_mcp_server env_ctor_invalid None st0))) = []
   \<and> Call_mcp_run ''stdio'' ''CRITICAL''
       \<in> set (events_since st0 (snd (run_mcp_server env_run_raises None st0)))
   \<and> mcp_run env_run_raises ''stdio'' =
       Some (PyExc (Exception_subclass ''OSError'') ''stdin closed'')
   \<and> fst (run_mcp_server env_run_raises None st0) =
       Inl (PyExc (Exception_subclass ''OSError'') ''stdin closed'')
   \<and> loop_entries (events_since st0 (snd (run_mcp_server env_run_raises None st0))) =
       [(''stdio'', ''CRITICAL'')]"
proof -
  have a1: "py_not None" by simp
  have a2: "new_AgentRouter env_ctor_raises (DEFAULT_EMBEDDING_MODEL env_ctor_raises) =
              Inl (PyExc (Exception_subclass ''OSError'') ''no index'')"
    by (simp add: example_defs)
  have b2: "new_AgentRouter env_ctor_invalid (DEFAULT_EMBEDDING_MODEL env_ctor_invalid) =
              Inr (Some falsy_stub)"
    by (simp add: example_defs)
  have b3: "py_not (Some falsy_stub)" by (simp add: example_defs)
  have c1: "Call_mcp_run ''stdio'' ''CRITICAL''
              \<in> set (events_since st0 (snd (run_mcp_server env_run_raises None st0)))"
    by (simp add: example_defs run_defs)
  have c2: "mcp_run env_run_raises ''stdio'' =
              Some (PyExc (Exception_subclass ''OSError'') ''stdin closed'')"
    by (simp add: example_defs)
  from startup_failure_propagates
         [of None env_ctor_raises "PyExc (Exception_subclass ''OSError'') ''no index''" st0]
       a1 a2
  have A: "fst (run_mcp_server env_ctor_raises None st0) =
             Inl (PyExc (Exception_subclass ''OSError'') ''no index'')
           \<and> loop_entries (events_since st0 (snd (run_mcp_server env_ctor_raises None st0))) = []"
    by blast
  from startup_failure_propagates
         [of None env_ctor_invalid _ st0 "Some falsy_stub"]
       a1 b2 b3
  have B: "fst (run_mcp_server env_ctor_invalid None st0) =
             Inl (PyExc RuntimeError
                    ''Shared services must be initialized before starting the server'')
           \<and> loop_entries (events_since st0 (snd (run_mcp_server env_ctor_invalid None st0))) = []"
    by blast
  from startup_failure_propagates
         [of None env_run_raises _ st0 _ "''CRITICAL''"
             "PyExc (Exception_subclass ''OSError'') ''stdin closed''"]
       c1 c2
  have C: "fst (run_mcp_server env_run_raises None st0) =
             Inl (PyExc (Exception_subclass ''OSError'') ''stdin closed'')
           \<and> loop_entries (events_since st0 (snd (run_mcp_server env_run_raises None st0))) =
               [(''stdio'', ''CRITICAL'')]"
    by blast
  from A B C a1 a2 b2 b3 c1 c2 show ?thesis by blast
qed

end
